theory Spec2Isabelle
  imports Main "HOL-Library.Word"
begin

unbundle bit_operations_syntax

section \<open>The DHT12 driver (src/dht12.c) as HOL functions\<close>

text \<open>
  The driver talks to three collaborators: the I2C core (\<open>i2c_master_send\<close>,
  \<open>i2c_master_recv\<close>), the mutex of the device, and the IIO core (the push of a scan and
  the trigger acknowledgement). The I2C core is a parameter of the model: a pair of
  functions on an abstract bus state, which may answer anything. Every call to a
  collaborator is written to an event list in program order, so that statements on
  what is called, how often and under which lock are statements on that list.
\<close>

subsection \<open>Types and constants\<close>

type_synonym u8 = "8 word"
type_synonym s16 = "16 word"

text \<open>\<open>u8 rx_buf[5]\<close>: humidity MSB, humidity LSB, temperature MSB, temperature LSB, CRC.\<close>

type_synonym rx_buf = "u8 \<times> u8 \<times> u8 \<times> u8 \<times> u8"

text \<open>\<open>struct dht12_sensor_data\<close>.\<close>

record dht12_sensor_data =
  hum_data :: s16
  temp_data :: s16

text \<open>
  \<open>struct dht12_data\<close>: \<open>client\<close> is the state of the bus behind the I2C client, \<open>buffer\<close>
  the two 16-bit slots. The mutex is not a field: taking and releasing it are events.
\<close>

record 'b dht12_data =
  client :: 'b
  buffer :: "s16 \<times> s16"

text \<open>
  The I2C core. \<open>i2c_master_send c buf\<close> sends \<open>buf\<close> (its length is the count) and returns
  the C return value, negative on failure; \<open>i2c_master_recv c n\<close> asks for \<open>n\<close> bytes and
  returns the C return value with the five bytes \<open>rx_buf\<close> holds after the call (whatever
  the stack held where the call wrote nothing).
\<close>

record 'b i2c_ops =
  i2c_master_send :: "'b \<Rightarrow> u8 list \<Rightarrow> int \<times> 'b"
  i2c_master_recv :: "'b \<Rightarrow> nat \<Rightarrow> (int \<times> rx_buf) \<times> 'b"

text \<open>
  Events, in program order. \<open>Verify\<close> marks lines 75-76 (the sum and its comparison),
  \<open>Decode\<close> lines 81-82 (the two stores to \<open>*sensor_data\<close>), \<open>BufferStore i v\<close> a store
  \<open>data->buffer[i] = v\<close>.
\<close>

datatype event =
    MutexLock
  | MutexUnlock
  | I2cMasterSend "u8 list"
  | I2cMasterRecv nat
  | UsleepRange nat nat
  | DevErr string
  | Verify
  | Decode
  | BufferStore nat s16
  | IioPushToBuffersWithTimestamp "s16 \<times> s16" int
  | IioTriggerNotifyDone

datatype irqreturn = IRQ_NONE | IRQ_HANDLED | IRQ_WAKE_THREAD

datatype iio_chan_type = IIO_HUMIDITYRELATIVE | IIO_TEMP | IIO_TIMESTAMP

text \<open>Constants of the kernel headers: \<open>errno-base.h\<close>, \<open>linux/iio/types.h\<close>, \<open>linux/iio/iio.h\<close>.\<close>

definition EIO :: int where
  "EIO = 5"

definition EINVAL :: int where
  "EINVAL = 22"

definition IIO_VAL_INT :: int where
  "IIO_VAL_INT = 1"

definition IIO_CHAN_INFO_RAW :: int where
  "IIO_CHAN_INFO_RAW = 0"

definition IIO_CHAN_INFO_SCALE :: int where
  "IIO_CHAN_INFO_SCALE = 2"

text \<open>
  \<open>GENMASK(h, l)\<close> of \<open>linux/bits.h\<close> on a 64-bit \<open>unsigned long\<close>:
  \<open>((~0UL) << l) & (~0UL >> (BITS_PER_LONG - 1 - h))\<close>.
\<close>

definition GENMASK :: "nat \<Rightarrow> nat \<Rightarrow> 64 word" where
  "GENMASK h l = push_bit l (- 1) AND drop_bit (64 - 1 - h) (- 1)"

definition DHT12_ALL_CHANNEL_MASK :: "64 word" where
  "DHT12_ALL_CHANNEL_MASK = GENMASK 1 0"

subsection \<open>\<open>dht12_read_data\<close>\<close>

text \<open>
  Lines 53-89. The sum of line 75 is computed in \<open>int\<close> (the bytes are promoted) and
  cut to eight bits by the assignment to \<open>crc\<close>; the products of lines 81-82 are
  computed in \<open>int\<close> and cut to sixteen bits by the assignment to an \<open>s16\<close>.
  \<open>sensor_data\<close> is the content of \<open>*sensor_data\<close> at the call; the second component of
  the result is its content at the return.
\<close>

definition dht12_read_data ::
  "'b i2c_ops \<Rightarrow> 'b dht12_data \<Rightarrow> dht12_sensor_data \<Rightarrow>
     int \<times> dht12_sensor_data \<times> 'b dht12_data \<times> event list" where
  "dht12_read_data ops data sensor_data =
    (let tx_buf = [0x00];
         (ret, c1) = i2c_master_send ops (client data) tx_buf;
         ev1 = [MutexLock, I2cMasterSend tx_buf]
     in if ret < 0 then
          (ret, sensor_data, data\<lparr>client := c1\<rparr>,
           ev1 @ [DevErr ''failed to send read request'', MutexUnlock])
        else
          let ((ret, rx), c2) = i2c_master_recv ops c1 5;
              ev2 = ev1 @ [UsleepRange 10000 20000, I2cMasterRecv 5]
          in if ret < 0 then
               (ret, sensor_data, data\<lparr>client := c2\<rparr>,
                ev2 @ [DevErr ''failed to read sensor data'', MutexUnlock])
             else
               let ev3 = ev2 @ [UsleepRange 10000 20000, MutexUnlock, Verify];
                   (rx0, rx1, rx2, rx3, rx4) = rx;
                   crc = (word_of_int (uint rx0 + uint rx1 + uint rx2 + uint rx3) :: u8)
               in if uint crc \<noteq> uint rx4 then
                    (- EIO, sensor_data, data\<lparr>client := c2\<rparr>,
                     ev3 @ [DevErr ''failed to verify sensor data''])
                  else
                    (ret,
                     sensor_data\<lparr>hum_data := word_of_int (uint rx0 * 100 + uint rx1),
                                  temp_data := word_of_int (uint rx2 * 100 + uint rx3)\<rparr>,
                     data\<lparr>client := c2\<rparr>,
                     ev3 @ [Decode]))"

subsection \<open>\<open>dht12_trigger_handler\<close>\<close>

text \<open>
  \<open>for_each_set_bit(bit, addr, size)\<close>: the positions below \<open>size\<close> of the bits set in
  the bitmap, in ascending order. The bitmap is one \<open>unsigned long\<close>, as line 107 reads it.
\<close>

definition for_each_set_bit :: "64 word \<Rightarrow> nat \<Rightarrow> nat list" where
  "for_each_set_bit addr sz = filter (\<lambda>k. bit addr k) [0..<sz]"

text \<open>
  A store \<open>data->buffer[i] = v\<close>. The array has two slots; a store at any other index is
  outside the object and has no defined result: \<open>None\<close>.
\<close>

fun buffer_store :: "nat \<Rightarrow> s16 \<Rightarrow> s16 \<times> s16 \<Rightarrow> (s16 \<times> s16) option" where
  "buffer_store i v (s0, s1) =
     (if i = 0 then Some (v, s1) else if i = 1 then Some (s0, v) else None)"

text \<open>The body of the loop of lines 112-117, over the positions still to visit.\<close>

fun scan_loop ::
  "dht12_sensor_data \<Rightarrow> nat list \<Rightarrow> nat \<Rightarrow> s16 \<times> s16 \<Rightarrow> event list \<Rightarrow>
     (nat \<times> (s16 \<times> s16) \<times> event list) option" where
  "scan_loop sensor_data [] i buf ev = Some (i, buf, ev)"
| "scan_loop sensor_data (b # bs) i buf ev =
     (let v = (if b \<noteq> 0 then temp_data sensor_data else hum_data sensor_data)
      in case buffer_store i v buf of
           None \<Rightarrow> None
         | Some buf' \<Rightarrow> scan_loop sensor_data bs (i + 1) buf' (ev @ [BufferStore i v]))"

text \<open>
  Lines 107-118: the assembly of the scan in \<open>data->buffer\<close>. The result is the number of
  slots written by the loop (\<open>i\<close>; the fast path writes both), the buffer and the stores.
\<close>

definition fill_buffer ::
  "dht12_sensor_data \<Rightarrow> 64 word \<Rightarrow> nat \<Rightarrow> s16 \<times> s16 \<Rightarrow>
     (nat \<times> (s16 \<times> s16) \<times> event list) option" where
  "fill_buffer sensor_data active_scan_mask masklength buf =
     (if active_scan_mask = DHT12_ALL_CHANNEL_MASK then
        Some (2, (hum_data sensor_data, temp_data sensor_data),
              [BufferStore 0 (hum_data sensor_data), BufferStore 1 (temp_data sensor_data)])
      else
        scan_loop sensor_data (for_each_set_bit active_scan_mask masklength) 0 buf [])"

text \<open>
  Lines 91-125. \<open>active_scan_mask\<close>, \<open>masklength\<close> and \<open>timestamp\<close> are the fields of the
  IIO device and of the poll function the handler reads; \<open>sensor_data\<close> is the
  indeterminate initial content of the local of that name. \<open>None\<close>: a store outside
  \<open>data->buffer\<close>.
\<close>

definition dht12_trigger_handler ::
  "'b i2c_ops \<Rightarrow> 64 word \<Rightarrow> nat \<Rightarrow> int \<Rightarrow> 'b dht12_data \<Rightarrow> dht12_sensor_data \<Rightarrow>
     (irqreturn \<times> 'b dht12_data \<times> event list) option" where
  "dht12_trigger_handler ops active_scan_mask masklength timestamp data sensor_data =
    (let (ret, sensor_data, data, ev1) = dht12_read_data ops data sensor_data;
         (ret, sensor_data, data, ev2) = dht12_read_data ops data sensor_data
     in if ret < 0 then
          Some (IRQ_HANDLED, data, ev1 @ ev2 @ [IioTriggerNotifyDone])
        else
          case fill_buffer sensor_data active_scan_mask masklength (buffer data) of
            None \<Rightarrow> None
          | Some (i, buf, stores) \<Rightarrow>
              Some (IRQ_HANDLED, data\<lparr>buffer := buf\<rparr>,
                    ev1 @ ev2 @ [MutexLock] @ stores @
                    [MutexUnlock, IioPushToBuffersWithTimestamp buf timestamp,
                     IioTriggerNotifyDone]))"

subsection \<open>\<open>dht12_read_raw\<close>\<close>

text \<open>
  Lines 127-149. \<open>val\<close> and \<open>val2\<close> are the contents of \<open>*val\<close> and \<open>*val2\<close> at the call,
  \<open>mask_arg\<close> is the parameter \<open>mask\<close> and \<open>sensor_data\<close> the indeterminate initial content
  of the local of that name; the result is the return value, the contents of \<open>*val\<close> and
  \<open>*val2\<close> at the return, the device and the events.
\<close>

definition dht12_read_raw ::
  "'b i2c_ops \<Rightarrow> 'b dht12_data \<Rightarrow> iio_chan_type \<Rightarrow> int \<Rightarrow> int \<Rightarrow> int \<Rightarrow> dht12_sensor_data \<Rightarrow>
     int \<times> int \<times> int \<times> 'b dht12_data \<times> event list" where
  "dht12_read_raw ops data chan_type val val2 mask_arg sensor_data =
    (if mask_arg = IIO_CHAN_INFO_RAW then
       (let (ret, sensor_data, data, ev) = dht12_read_data ops data sensor_data
        in if ret < 0 then (ret, val, val2, data, ev)
           else
             (IIO_VAL_INT,
              (if chan_type = IIO_HUMIDITYRELATIVE then sint (hum_data sensor_data)
               else sint (temp_data sensor_data)),
              val2, data, ev))
     else if mask_arg = IIO_CHAN_INFO_SCALE then (IIO_VAL_INT, 100, val2, data, [])
     else (- EINVAL, val, val2, data, []))"

subsection \<open>Reading the event list\<close>



fun is_send :: "event \<Rightarrow> bool" where
  "is_send (I2cMasterSend _) = True"
| "is_send _ = False"

fun is_recv :: "event \<Rightarrow> bool" where
  "is_recv (I2cMasterRecv _) = True"
| "is_recv _ = False"


fun is_push :: "event \<Rightarrow> bool" where
  "is_push (IioPushToBuffersWithTimestamp _ _) = True"
| "is_push _ = False"

fun is_store :: "event \<Rightarrow> bool" where
  "is_store (BufferStore _ _) = True"
| "is_store _ = False"

text \<open>The slots of the buffer, as a list.\<close>

fun slots :: "s16 \<times> s16 \<Rightarrow> s16 list" where
  "slots (s0, s1) = [s0, s1]"


text \<open>
  A bus for examples. Its state is a script: the return values of the sends to come and
  the answers of the receives to come. A call past the end of its script fails with
  \<open>-EIO\<close>.
\<close>

type_synonym script = "int list \<times> (int \<times> rx_buf) list"

fun script_send :: "script \<Rightarrow> u8 list \<Rightarrow> int \<times> script" where
  "script_send ([], rs) buf = (- 5, ([], rs))"
| "script_send (s # ss, rs) buf = (s, (ss, rs))"

fun script_recv :: "script \<Rightarrow> nat \<Rightarrow> (int \<times> rx_buf) \<times> script" where
  "script_recv (ss, []) n = ((- 5, (0, 0, 0, 0, 0)), (ss, []))"
| "script_recv (ss, r # rs) n = (r, (ss, rs))"

definition script_bus :: "script i2c_ops" where
  "script_bus = \<lparr>i2c_master_send = script_send, i2c_master_recv = script_recv\<rparr>"

text \<open>A device on the script bus, and a content for an uninitialised local.\<close>

definition device :: "script \<Rightarrow> script dht12_data" where
  "device sc = \<lparr>client = sc, buffer = (0, 0)\<rparr>"

definition stale :: dht12_sensor_data where
  "stale = \<lparr>hum_data = 7, temp_data = 9\<rparr>"

section \<open>Properties\<close>

lemma DHT12_ALL_CHANNEL_MASK_eq: "DHT12_ALL_CHANNEL_MASK = 3"
  by (simp add: DHT12_ALL_CHANNEL_MASK_def GENMASK_def mask_eq_exp_minus_1)

subsection \<open>The arithmetic of lines 75 and 81-82\<close>

lemma sint16: "0 \<le> k \<Longrightarrow> k < 32768 \<Longrightarrow> sint (word_of_int k :: 16 word) = k"
  by (simp add: int_word_sint)

lemma uint8_upper: "uint (w :: u8) \<le> 255"
  using uint_bounded [of w] by simp

lemma decode_value: "sint (word_of_int (uint (a :: u8) * 100 + uint (b :: u8)) :: s16) = uint a * 100 + uint b"
proof -
  have "uint a * 100 + uint b < 32768"
    using uint8_upper [of a] uint8_upper [of b] by simp
  moreover have "0 \<le> uint a * 100 + uint b"
    by simp
  ultimately show ?thesis
    by (rule sint16 [rotated])
qed

lemma unat_sum4: "unat (a + b + c + d :: u8) = (unat a + unat b + unat c + unat d) mod 256"
proof -
  have "unat (a + b + c + d) = (unat (a + b + c) + unat d) mod 256"
    by (simp add: unat_word_ariths)
  also have "unat (a + b + c) = (unat (a + b) + unat c) mod 256"
    by (simp add: unat_word_ariths)
  also have "unat (a + b) = (unat a + unat b) mod 256"
    by (simp add: unat_word_ariths)
  finally show ?thesis
    by (simp add: mod_add_left_eq)
qed

lemma crc_matches:
  "(uint (word_of_int (uint a + uint b + uint c + uint d) :: u8) = uint (e :: u8)) =
   (unat e = (unat (a :: u8) + unat (b :: u8) + unat (c :: u8) + unat (d :: u8)) mod 256)"
proof -
  have "(uint (word_of_int (uint a + uint b + uint c + uint d) :: u8) = uint e) =
        (uint (a + b + c + d) = uint e)"
    by simp
  also have "\<dots> = (a + b + c + d = e)"
    by (rule word_uint_eq_iff [symmetric])
  also have "\<dots> = (unat (a + b + c + d) = unat e)"
    by (rule word_unat_eq_iff)
  also have "\<dots> = (unat e = (unat a + unat b + unat c + unat d) mod 256)"
    by (simp only: unat_sum4) auto
  finally show ?thesis .
qed

subsection \<open>The four ways through \<open>dht12_read_data\<close>\<close>

lemma read_data_send_failed:
  assumes "i2c_master_send ops (client data) [0] = (s, c1)" and "s < 0"
  shows "dht12_read_data ops data sd =
           (s, sd, data\<lparr>client := c1\<rparr>,
            [MutexLock, I2cMasterSend [0], DevErr ''failed to send read request'', MutexUnlock])"
  using assms by (simp add: dht12_read_data_def)

lemma read_data_recv_failed:
  assumes "i2c_master_send ops (client data) [0] = (s, c1)" and "0 \<le> s"
    and "i2c_master_recv ops c1 5 = ((r, rx), c2)" and "r < 0"
  shows "dht12_read_data ops data sd =
           (r, sd, data\<lparr>client := c2\<rparr>,
            [MutexLock, I2cMasterSend [0], UsleepRange 10000 20000, I2cMasterRecv 5,
             DevErr ''failed to read sensor data'', MutexUnlock])"
  using assms by (simp add: dht12_read_data_def)

lemma read_data_crc_failed:
  assumes "i2c_master_send ops (client data) [0] = (s, c1)" and "0 \<le> s"
    and "i2c_master_recv ops c1 5 = ((r, (rx0, rx1, rx2, rx3, rx4)), c2)" and "0 \<le> r"
    and "unat rx4 \<noteq> (unat rx0 + unat rx1 + unat rx2 + unat rx3) mod 256"
  shows "dht12_read_data ops data sd =
           (- EIO, sd, data\<lparr>client := c2\<rparr>,
            [MutexLock, I2cMasterSend [0], UsleepRange 10000 20000, I2cMasterRecv 5,
             UsleepRange 10000 20000, MutexUnlock, Verify,
             DevErr ''failed to verify sensor data''])"
  using assms crc_matches [of rx0 rx1 rx2 rx3 rx4] by (simp add: dht12_read_data_def)

lemma read_data_ok:
  assumes "i2c_master_send ops (client data) [0] = (s, c1)" and "0 \<le> s"
    and "i2c_master_recv ops c1 5 = ((r, (rx0, rx1, rx2, rx3, rx4)), c2)" and "0 \<le> r"
    and "unat rx4 = (unat rx0 + unat rx1 + unat rx2 + unat rx3) mod 256"
  shows "dht12_read_data ops data sd =
           (r, sd\<lparr>hum_data := word_of_int (uint rx0 * 100 + uint rx1),
                  temp_data := word_of_int (uint rx2 * 100 + uint rx3)\<rparr>,
            data\<lparr>client := c2\<rparr>,
            [MutexLock, I2cMasterSend [0], UsleepRange 10000 20000, I2cMasterRecv 5,
             UsleepRange 10000 20000, MutexUnlock, Verify, Decode])"
  using assms crc_matches [of rx0 rx1 rx2 rx3 rx4] by (simp add: dht12_read_data_def)

lemma read_data_cases:
  assumes "dht12_read_data ops data sd = (ret, sd', data', ev)"
  obtains
    (send_failed) s c1 where
      "i2c_master_send ops (client data) [0] = (s, c1)" "s < 0"
      "ret = s" "sd' = sd" "data' = data\<lparr>client := c1\<rparr>"
      "ev = [MutexLock, I2cMasterSend [0], DevErr ''failed to send read request'', MutexUnlock]"
  | (recv_failed) s c1 r rx c2 where
      "i2c_master_send ops (client data) [0] = (s, c1)" "0 \<le> s"
      "i2c_master_recv ops c1 5 = ((r, rx), c2)" "r < 0"
      "ret = r" "sd' = sd" "data' = data\<lparr>client := c2\<rparr>"
      "ev = [MutexLock, I2cMasterSend [0], UsleepRange 10000 20000, I2cMasterRecv 5,
             DevErr ''failed to read sensor data'', MutexUnlock]"
  | (crc_failed) s c1 r rx0 rx1 rx2 rx3 rx4 c2 where
      "i2c_master_send ops (client data) [0] = (s, c1)" "0 \<le> s"
      "i2c_master_recv ops c1 5 = ((r, (rx0, rx1, rx2, rx3, rx4)), c2)" "0 \<le> r"
      "unat rx4 \<noteq> (unat rx0 + unat rx1 + unat rx2 + unat rx3) mod 256"
      "ret = - EIO" "sd' = sd" "data' = data\<lparr>client := c2\<rparr>"
      "ev = [MutexLock, I2cMasterSend [0], UsleepRange 10000 20000, I2cMasterRecv 5,
             UsleepRange 10000 20000, MutexUnlock, Verify,
             DevErr ''failed to verify sensor data'']"
  | (ok) s c1 r rx0 rx1 rx2 rx3 rx4 c2 where
      "i2c_master_send ops (client data) [0] = (s, c1)" "0 \<le> s"
      "i2c_master_recv ops c1 5 = ((r, (rx0, rx1, rx2, rx3, rx4)), c2)" "0 \<le> r"
      "unat rx4 = (unat rx0 + unat rx1 + unat rx2 + unat rx3) mod 256"
      "ret = r"
      "sd' = sd\<lparr>hum_data := word_of_int (uint rx0 * 100 + uint rx1),
                  temp_data := word_of_int (uint rx2 * 100 + uint rx3)\<rparr>"
      "data' = data\<lparr>client := c2\<rparr>"
      "ev = [MutexLock, I2cMasterSend [0], UsleepRange 10000 20000, I2cMasterRecv 5,
             UsleepRange 10000 20000, MutexUnlock, Verify, Decode]"
proof -
  obtain s c1 where s: "i2c_master_send ops (client data) [0] = (s, c1)"
    by (cases "i2c_master_send ops (client data) [0]") auto
  obtain r rx0 rx1 rx2 rx3 rx4 c2
    where r: "i2c_master_recv ops c1 5 = ((r, (rx0, rx1, rx2, rx3, rx4)), c2)"
    by (cases "i2c_master_recv ops c1 5") auto
  consider (a) "s < 0" | (b) "0 \<le> s" "r < 0"
    | (c) "0 \<le> s" "0 \<le> r" "unat rx4 \<noteq> (unat rx0 + unat rx1 + unat rx2 + unat rx3) mod 256"
    | (d) "0 \<le> s" "0 \<le> r" "unat rx4 = (unat rx0 + unat rx1 + unat rx2 + unat rx3) mod 256"
    by linarith
  then show thesis
  proof cases
    case a
    from read_data_send_failed [OF s a, of sd] assms show thesis
      by (intro send_failed [OF s a]) simp_all
  next
    case b
    from read_data_recv_failed [OF s b(1) r b(2), of sd] assms show thesis
      by (intro recv_failed [OF s b(1) r b(2)]) simp_all
  next
    case c
    from read_data_crc_failed [OF s c(1) r c(2) c(3), of sd] assms show thesis
      by (intro crc_failed [OF s c(1) r c(2) c(3)]) simp_all
  next
    case d
    from read_data_ok [OF s d(1) r d(2) d(3), of sd] assms show thesis
      by (intro ok [OF s d(1) r d(2) d(3)]) simp_all
  qed
qed

lemma read_data_sends_once:
  assumes "dht12_read_data ops data sd = (ret, sd', data', ev)"
  shows "filter is_send ev = [I2cMasterSend [0]]"
  using assms by (cases rule: read_data_cases) simp_all

lemma read_data_error_keeps:
  assumes "dht12_read_data ops data sd = (ret, sd', data', ev)" and "ret < 0"
  shows "sd' = sd"
  using assms by (cases rule: read_data_cases) simp_all

lemma read_data_recvs_at_most_once:
  assumes "dht12_read_data ops data sd = (ret, sd', data', ev)"
  shows "length (filter is_recv ev) \<le> 1"
  using assms by (cases rule: read_data_cases) simp_all

lemma read_data_no_capture_events:
  assumes "dht12_read_data ops data sd = (ret, sd', data', ev)"
  shows "filter is_push ev = [] \<and> filter is_store ev = [] \<and> IioTriggerNotifyDone \<notin> set ev
       \<and> buffer data' = buffer data"
  using assms by (cases rule: read_data_cases) simp_all


subsection \<open>\<open>dht12_trigger_handler\<close> in terms of its two transactions\<close>

lemma trigger_handler_eq:
  assumes "dht12_read_data ops data sd = (ret1, sd1, data1, ev1)"
    and "dht12_read_data ops data1 sd1 = (ret2, sd2, data2, ev2)"
  shows "dht12_trigger_handler ops m ml ts data sd =
           (if ret2 < 0 then Some (IRQ_HANDLED, data2, ev1 @ ev2 @ [IioTriggerNotifyDone])
            else case fill_buffer sd2 m ml (buffer data2) of
                   None \<Rightarrow> None
                 | Some (i, buf, stores) \<Rightarrow>
                     Some (IRQ_HANDLED, data2\<lparr>buffer := buf\<rparr>,
                           ev1 @ ev2 @ [MutexLock] @ stores @
                           [MutexUnlock, IioPushToBuffersWithTimestamp buf ts,
                            IioTriggerNotifyDone]))"
  using assms by (simp add: dht12_trigger_handler_def)



lemma read_data_fails_iff:
  assumes "i2c_master_send ops (client data) [0] = (s, c1)"
    and "i2c_master_recv ops c1 5 = ((r, (rx0, rx1, rx2, rx3, rx4)), c2)"
    and "dht12_read_data ops data sd = (ret, sd', data', ev)"
  shows "(ret < 0) =
         (s < 0 \<or> r < 0 \<or> unat rx4 \<noteq> (unat rx0 + unat rx1 + unat rx2 + unat rx3) mod 256)"
  using assms(3)
proof (cases rule: read_data_cases)
  case (send_failed s' c1')
  with assms show ?thesis by simp
next
  case (recv_failed s' c1' r' rx' c2')
  with assms show ?thesis by simp
next
  case (crc_failed s' c1' r' a b c d e c2')
  with assms show ?thesis by (simp add: EIO_def)
next
  case (ok s' c1' r' a b c d e c2')
  with assms show ?thesis by simp
qed

subsection \<open>What happens under the lock\<close>




subsection \<open>The assembly of the scan\<close>

lemma for_each_set_bit_ascending:
  "sorted_wrt (<) (for_each_set_bit m ml)"
  "distinct (for_each_set_bit m ml)"
  "set (for_each_set_bit m ml) = {k. k < ml \<and> bit m k}"
  "length (for_each_set_bit m ml) = card {k. k < ml \<and> bit m k}"
proof -
  show "sorted_wrt (<) (for_each_set_bit m ml)"
    unfolding for_each_set_bit_def by (rule sorted_wrt_filter) simp
  show d: "distinct (for_each_set_bit m ml)"
    by (simp add: for_each_set_bit_def)
  show s: "set (for_each_set_bit m ml) = {k. k < ml \<and> bit m k}"
    by (auto simp: for_each_set_bit_def)
  from distinct_card [OF d] s show "length (for_each_set_bit m ml) = card {k. k < ml \<and> bit m k}"
    by simp
qed

lemma scan_loop_at_most_two:
  assumes "length bs \<le> 2"
  shows "\<exists>buf' st. scan_loop sd bs 0 buf [] = Some (length bs, buf', st)
           \<and> take (length bs) (slots buf') =
               map (\<lambda>b. if b \<noteq> 0 then temp_data sd else hum_data sd) bs
           \<and> drop (length bs) (slots buf') = drop (length bs) (slots buf)
           \<and> st = map (\<lambda>(i, b). BufferStore i (if b \<noteq> 0 then temp_data sd else hum_data sd))
                      (enumerate 0 bs)"
proof -
  obtain s0 s1 where buf: "buf = (s0, s1)"
    by (cases buf) auto
  from assms consider "bs = []" | a where "bs = [a]" | a b where "bs = [a, b]"
    by (cases bs; cases "tl bs"; cases "tl (tl bs)") auto
  then show ?thesis
    by cases (simp_all add: buf Let_def)
qed

lemma scan_loop_overrun:
  assumes "2 < length bs"
  shows "scan_loop sd bs 0 buf [] = None"
proof -
  obtain s0 s1 where buf: "buf = (s0, s1)"
    by (cases buf) auto
  from assms obtain a b c cs where "bs = a # b # c # cs"
    by (cases bs; cases "tl bs"; cases "tl (tl bs)") auto
  then show ?thesis
    by (simp add: buf Let_def)
qed

lemma fill_buffer_overrun:
  assumes "m \<noteq> DHT12_ALL_CHANNEL_MASK" and "2 < length (for_each_set_bit m ml)"
  shows "fill_buffer sd m ml buf = None"
  using assms scan_loop_overrun [of "for_each_set_bit m ml" sd buf] by (simp add: fill_buffer_def)

lemma bits_examples:
  "for_each_set_bit 1 3 = [0]" "for_each_set_bit 2 3 = [1]" "for_each_set_bit 0 3 = []"
  "for_each_set_bit 5 3 = [0, 2]" "for_each_set_bit 7 3 = [0, 1, 2]"
  by (simp_all add: for_each_set_bit_def upt_rec)

subsection \<open>The three ways through \<open>dht12_read_raw\<close>\<close>

lemma read_raw_RAW:
  assumes "dht12_read_data ops data sd = (r, sd1, data1, ev1)"
  shows "dht12_read_raw ops data ct val val2 IIO_CHAN_INFO_RAW sd =
           (if r < 0 then (r, val, val2, data1, ev1)
            else (IIO_VAL_INT,
                  (if ct = IIO_HUMIDITYRELATIVE then sint (hum_data sd1)
                   else sint (temp_data sd1)),
                  val2, data1, ev1))"
  using assms by (simp add: dht12_read_raw_def)

lemma read_raw_SCALE:
  "dht12_read_raw ops data ct val val2 IIO_CHAN_INFO_SCALE sd = (IIO_VAL_INT, 100, val2, data, [])"
  by (simp add: dht12_read_raw_def IIO_CHAN_INFO_SCALE_def IIO_CHAN_INFO_RAW_def)

lemma read_raw_other:
  assumes "m \<noteq> IIO_CHAN_INFO_RAW" and "m \<noteq> IIO_CHAN_INFO_SCALE"
  shows "dht12_read_raw ops data ct val val2 m sd = (- EINVAL, val, val2, data, [])"
  using assms by (simp add: dht12_read_raw_def)

section \<open>The claims\<close>

text \<open>
  C1. For every received five-byte frame (both bus calls of the transaction having
  succeeded), the transaction succeeds if and only if the fifth byte equals the sum of
  the first four modulo 256. On a mismatch it returns \<open>-EIO\<close>, leaves \<open>*sensor_data\<close> as it
  was and never reaches the decode.
\<close>

theorem checksum_validation:
  assumes "i2c_master_send ops (client data) [0] = (s, c1)" and "0 \<le> s"
    and "i2c_master_recv ops c1 5 = ((r, (rx0, rx1, rx2, rx3, rx4)), c2)" and "0 \<le> r"
    and "dht12_read_data ops data sd = (ret, sd', data', ev)"
  shows "(0 \<le> ret) = (unat rx4 = (unat rx0 + unat rx1 + unat rx2 + unat rx3) mod 256)
       \<and> (unat rx4 \<noteq> (unat rx0 + unat rx1 + unat rx2 + unat rx3) mod 256 \<longrightarrow>
            ret = - EIO \<and> sd' = sd \<and> Decode \<notin> set ev)"
proof (cases "unat rx4 = (unat rx0 + unat rx1 + unat rx2 + unat rx3) mod 256")
  case True
  from read_data_ok [OF assms(1-4) True, of sd] assms(5) assms(4) show ?thesis
    using True by simp
next
  case False
  from read_data_crc_failed [OF assms(1-4) False, of sd] assms(5) show ?thesis
    using False by (simp add: EIO_def)
qed

theorem checksum_validation_witness:
  "fst (dht12_read_data script_bus (device ([1], [(5, (23, 45, 26, 50, 143))])) stale) = - EIO
   \<and> fst (snd (dht12_read_data script_bus (device ([1], [(5, (23, 45, 26, 50, 143))])) stale)) = stale
   \<and> 0 \<le> fst (dht12_read_data script_bus (device ([1], [(5, (23, 45, 26, 50, 144))])) stale)"
proof -
  let ?bad = "dht12_read_data script_bus (device ([1], [(5, (23, 45, 26, 50, 143))])) stale"
  let ?good = "dht12_read_data script_bus (device ([1], [(5, (23, 45, 26, 50, 144))])) stale"
  have s: "i2c_master_send script_bus (client (device ([1], [(5, (23, 45, 26, 50, 143))]))) [0] =
           (1, ([], [(5, (23, 45, 26, 50, 143))]))"
    by (simp add: script_bus_def device_def)
  have r: "i2c_master_recv script_bus ([], [(5, (23, 45, 26, 50, 143))]) 5 =
           ((5, (23, 45, 26, 50, 143)), ([], []))"
    by (simp add: script_bus_def)
  have s': "i2c_master_send script_bus (client (device ([1], [(5, (23, 45, 26, 50, 144))]))) [0] =
           (1, ([], [(5, (23, 45, 26, 50, 144))]))"
    by (simp add: script_bus_def device_def)
  have r': "i2c_master_recv script_bus ([], [(5, (23, 45, 26, 50, 144))]) 5 =
           ((5, (23, 45, 26, 50, 144)), ([], []))"
    by (simp add: script_bus_def)
  have bad: "?bad = (fst ?bad, fst (snd ?bad), fst (snd (snd ?bad)), snd (snd (snd ?bad)))"
    by simp
  have good: "?good = (fst ?good, fst (snd ?good), fst (snd (snd ?good)), snd (snd (snd ?good)))"
    by simp
  from checksum_validation [OF s _ r _ bad] checksum_validation [OF s' _ r' _ good]
  show ?thesis by simp
qed

text \<open>
  C2. For every frame that is decoded, whatever its four data bytes in 0..255, the
  humidity is \<open>rx_buf[0] * 100 + rx_buf[1]\<close> and the temperature
  \<open>rx_buf[2] * 100 + rx_buf[3]\<close>, read as signed 16-bit values: no clamping, no case for
  bytes above 99.
\<close>

theorem decode_arithmetic:
  assumes "i2c_master_send ops (client data) [0] = (s, c1)" and "0 \<le> s"
    and "i2c_master_recv ops c1 5 = ((r, (rx0, rx1, rx2, rx3, rx4)), c2)" and "0 \<le> r"
    and "unat rx4 = (unat rx0 + unat rx1 + unat rx2 + unat rx3) mod 256"
    and "dht12_read_data ops data sd = (ret, sd', data', ev)"
  shows "sint (hum_data sd') = uint rx0 * 100 + uint rx1
       \<and> sint (temp_data sd') = uint rx2 * 100 + uint rx3"
  using read_data_ok [OF assms(1-5), of sd] assms(6)
    decode_value [of rx0 rx1] decode_value [of rx2 rx3]
  by auto

theorem decode_arithmetic_witness:
  "sint (hum_data (fst (snd (dht12_read_data script_bus
      (device ([1], [(5, (255, 255, 200, 100, 42))])) stale)))) = 25755
   \<and> sint (temp_data (fst (snd (dht12_read_data script_bus
      (device ([1], [(5, (255, 255, 200, 100, 42))])) stale)))) = 20100"
proof -
  let ?run = "dht12_read_data script_bus (device ([1], [(5, (255, 255, 200, 100, 42))])) stale"
  have s: "i2c_master_send script_bus (client (device ([1], [(5, (255, 255, 200, 100, 42))]))) [0] =
           (1, ([], [(5, (255, 255, 200, 100, 42))]))"
    by (simp add: script_bus_def device_def)
  have r: "i2c_master_recv script_bus ([], [(5, (255, 255, 200, 100, 42))]) 5 =
           ((5, (255, 255, 200, 100, 42)), ([], []))"
    by (simp add: script_bus_def)
  have run: "?run = (fst ?run, fst (snd ?run), fst (snd (snd ?run)), snd (snd (snd ?run)))"
    by simp
  from decode_arithmetic [OF s _ r _ _ run] show ?thesis by simp
qed

text \<open>
  C8. The bus transaction takes the lock, sends the one command byte 0, and stops there
  with the send's own return value when the send fails (no receive follows); otherwise
  it sleeps 10000-20000 us and asks for five bytes, and stops there with the receive's
  own return value when the receive fails; otherwise it sleeps 10000-20000 us again and
  releases the lock. In every case there is one send and at most one receive: nothing is
  retried.
\<close>

theorem bus_transaction_protocol:
  assumes "i2c_master_send ops (client data) [0] = (s, c1)"
    and "i2c_master_recv ops c1 5 = ((r, rx), c2)"
    and "dht12_read_data ops data sd = (ret, sd', data', ev)"
  shows "(s < 0 \<longrightarrow>
            ret = s \<and>
            ev = [MutexLock, I2cMasterSend [0], DevErr ''failed to send read request'',
                  MutexUnlock])
       \<and> (0 \<le> s \<and> r < 0 \<longrightarrow>
            ret = r \<and>
            ev = [MutexLock, I2cMasterSend [0], UsleepRange 10000 20000, I2cMasterRecv 5,
                  DevErr ''failed to read sensor data'', MutexUnlock])
       \<and> (0 \<le> s \<and> 0 \<le> r \<longrightarrow>
            take 6 ev = [MutexLock, I2cMasterSend [0], UsleepRange 10000 20000,
                         I2cMasterRecv 5, UsleepRange 10000 20000, MutexUnlock])
       \<and> filter is_send ev = [I2cMasterSend [0]]
       \<and> filter is_recv ev = (if s < 0 then [] else [I2cMasterRecv 5])"
proof -
  obtain rx0 rx1 rx2 rx3 rx4 where rx: "rx = (rx0, rx1, rx2, rx3, rx4)"
    by (cases rx) auto
  consider (send) "s < 0" | (recv) "0 \<le> s" "r < 0"
    | (crc) "0 \<le> s" "0 \<le> r" "unat rx4 \<noteq> (unat rx0 + unat rx1 + unat rx2 + unat rx3) mod 256"
    | (ok) "0 \<le> s" "0 \<le> r" "unat rx4 = (unat rx0 + unat rx1 + unat rx2 + unat rx3) mod 256"
    by linarith
  then show ?thesis
  proof cases
    case send
    from read_data_send_failed [OF assms(1) send, of sd] assms(3) send show ?thesis
      by auto
  next
    case recv
    from read_data_recv_failed [OF assms(1) recv(1) assms(2) recv(2), of sd] assms(3) recv
    show ?thesis by auto
  next
    case crc
    from read_data_crc_failed [OF assms(1) crc(1) assms(2) [unfolded rx] crc(2) crc(3), of sd]
      assms(3) crc(1,2)
    show ?thesis by auto
  next
    case ok
    from read_data_ok [OF assms(1) ok(1) assms(2) [unfolded rx] ok(2) ok(3), of sd]
      assms(3) ok(1,2)
    show ?thesis by auto
  qed
qed

theorem bus_transaction_protocol_witness:
  "fst (dht12_read_data script_bus (device ([- 6], [(5, (23, 45, 26, 50, 144))])) stale) = - 6
   \<and> snd (snd (snd (dht12_read_data script_bus
        (device ([- 6], [(5, (23, 45, 26, 50, 144))])) stale))) =
       [MutexLock, I2cMasterSend [0], DevErr ''failed to send read request'', MutexUnlock]
   \<and> fst (dht12_read_data script_bus (device ([1], [(- 110, (0, 0, 0, 0, 0))])) stale) = - 110
   \<and> snd (snd (snd (dht12_read_data script_bus (device ([1], [(- 110, (0, 0, 0, 0, 0))])) stale))) =
       [MutexLock, I2cMasterSend [0], UsleepRange 10000 20000, I2cMasterRecv 5,
        DevErr ''failed to read sensor data'', MutexUnlock]
   \<and> take 6 (snd (snd (snd (dht12_read_data script_bus
        (device ([1], [(5, (23, 45, 26, 50, 144))])) stale)))) =
       [MutexLock, I2cMasterSend [0], UsleepRange 10000 20000, I2cMasterRecv 5,
        UsleepRange 10000 20000, MutexUnlock]"
proof -
  let ?a = "dht12_read_data script_bus (device ([- 6], [(5, (23, 45, 26, 50, 144))])) stale"
  let ?b = "dht12_read_data script_bus (device ([1], [(- 110, (0, 0, 0, 0, 0))])) stale"
  let ?c = "dht12_read_data script_bus (device ([1], [(5, (23, 45, 26, 50, 144))])) stale"
  have sa: "i2c_master_send script_bus (client (device ([- 6], [(5, (23, 45, 26, 50, 144))]))) [0] =
            (- 6, ([], [(5, (23, 45, 26, 50, 144))]))"
    by (simp add: script_bus_def device_def)
  have ra: "i2c_master_recv script_bus ([], [(5, (23, 45, 26, 50, 144))]) 5 =
            ((5, (23, 45, 26, 50, 144)), ([], []))"
    by (simp add: script_bus_def)
  have sb: "i2c_master_send script_bus (client (device ([1], [(- 110, (0, 0, 0, 0, 0))]))) [0] =
            (1, ([], [(- 110, (0, 0, 0, 0, 0))]))"
    by (simp add: script_bus_def device_def)
  have rb: "i2c_master_recv script_bus ([], [(- 110, (0, 0, 0, 0, 0))]) 5 =
            ((- 110, (0, 0, 0, 0, 0)), ([], []))"
    by (simp add: script_bus_def)
  have sc: "i2c_master_send script_bus (client (device ([1], [(5, (23, 45, 26, 50, 144))]))) [0] =
            (1, ([], [(5, (23, 45, 26, 50, 144))]))"
    by (simp add: script_bus_def device_def)
  have a: "?a = (fst ?a, fst (snd ?a), fst (snd (snd ?a)), snd (snd (snd ?a)))"
    by simp
  have b: "?b = (fst ?b, fst (snd ?b), fst (snd (snd ?b)), snd (snd (snd ?b)))"
    by simp
  have c: "?c = (fst ?c, fst (snd ?c), fst (snd (snd ?c)), snd (snd (snd ?c)))"
    by simp
  from bus_transaction_protocol [OF sa ra a] bus_transaction_protocol [OF sb rb b]
    bus_transaction_protocol [OF sc ra c]
  show ?thesis by simp
qed

text \<open>
  C7. A direct read of the raw value performs exactly one bus transaction (one send, at
  most one receive). Whenever the checksum of that transaction fails, the read returns
  \<open>-EIO\<close>, the decode is not reached and \<open>*val\<close> and \<open>*val2\<close> keep their contents. On every
  error return of the accessor, whatever the selector, \<open>*val\<close> and \<open>*val2\<close> keep their
  contents.
\<close>

theorem direct_read_single_transaction:
  assumes "dht12_read_raw ops data ct val val2 m sd = (ret, val', val2', data', ev)"
  shows "(m = IIO_CHAN_INFO_RAW \<longrightarrow>
            filter is_send ev = [I2cMasterSend [0]] \<and> length (filter is_recv ev) \<le> 1)
       \<and> (m = IIO_CHAN_INFO_RAW \<longrightarrow>
            (\<forall>s c1 r rx0 rx1 rx2 rx3 rx4 c2.
               i2c_master_send ops (client data) [0] = (s, c1) \<and> 0 \<le> s \<and>
               i2c_master_recv ops c1 5 = ((r, (rx0, rx1, rx2, rx3, rx4)), c2) \<and> 0 \<le> r \<and>
               unat rx4 \<noteq> (unat rx0 + unat rx1 + unat rx2 + unat rx3) mod 256 \<longrightarrow>
               ret = - EIO \<and> val' = val \<and> val2' = val2 \<and> Decode \<notin> set ev))
       \<and> (ret < 0 \<longrightarrow> val' = val \<and> val2' = val2)"
proof -
  obtain r sd1 data1 ev1 where rd: "dht12_read_data ops data sd = (r, sd1, data1, ev1)"
    by (cases "dht12_read_data ops data sd") auto
  have raw: "m = IIO_CHAN_INFO_RAW \<Longrightarrow>
      ev = ev1 \<and> val2' = val2 \<and> (r < 0 \<longrightarrow> ret = r \<and> val' = val) \<and> (0 \<le> r \<longrightarrow> ret = IIO_VAL_INT)"
    using assms read_raw_RAW [OF rd, of ct val val2] by (auto split: if_splits)
  have one: "m = IIO_CHAN_INFO_RAW \<Longrightarrow>
      filter is_send ev = [I2cMasterSend [0]] \<and> length (filter is_recv ev) \<le> 1"
    using raw read_data_sends_once [OF rd] read_data_recvs_at_most_once [OF rd] by simp
  have bad: "ret = - EIO \<and> val' = val \<and> val2' = val2 \<and> Decode \<notin> set ev"
    if "m = IIO_CHAN_INFO_RAW" "i2c_master_send ops (client data) [0] = (s, c1)" "0 \<le> s"
       "i2c_master_recv ops c1 5 = ((r', (rx0, rx1, rx2, rx3, rx4)), c2)" "0 \<le> r'"
       "unat rx4 \<noteq> (unat rx0 + unat rx1 + unat rx2 + unat rx3) mod 256"
    for s c1 r' rx0 rx1 rx2 rx3 rx4 c2
    using read_data_crc_failed [OF that(2-6), of sd] rd raw [OF that(1)]
    by (auto simp: EIO_def)
  have err: "ret < 0 \<Longrightarrow> val' = val \<and> val2' = val2"
  proof (cases "m = IIO_CHAN_INFO_RAW")
    case True
    assume "ret < 0"
    with raw [OF True] show ?thesis
      by (cases "r < 0") (auto simp: IIO_VAL_INT_def)
  next
    case False
    assume "ret < 0"
    with False assms show ?thesis
      by (cases "m = IIO_CHAN_INFO_SCALE")
         (auto simp: read_raw_SCALE read_raw_other IIO_VAL_INT_def)
  qed
  from one bad err show ?thesis by blast
qed

theorem direct_read_single_transaction_witness:
  "dht12_read_raw script_bus (device ([1], [(5, (23, 45, 26, 50, 143))])) IIO_TEMP 11 12
     IIO_CHAN_INFO_RAW stale =
   (- EIO, 11, 12, device ([], []),
    [MutexLock, I2cMasterSend [0], UsleepRange 10000 20000, I2cMasterRecv 5,
     UsleepRange 10000 20000, MutexUnlock, Verify, DevErr ''failed to verify sensor data''])"
proof -
  let ?run = "dht12_read_raw script_bus (device ([1], [(5, (23, 45, 26, 50, 143))])) IIO_TEMP 11 12
     IIO_CHAN_INFO_RAW stale"
  have s: "i2c_master_send script_bus (client (device ([1], [(5, (23, 45, 26, 50, 143))]))) [0] =
           (1, ([], [(5, (23, 45, 26, 50, 143))]))"
    by (simp add: script_bus_def device_def)
  have r: "i2c_master_recv script_bus ([], [(5, (23, 45, 26, 50, 143))]) 5 =
           ((5, (23, 45, 26, 50, 143)), ([], []))"
    by (simp add: script_bus_def)
  have run: "?run = (fst ?run, fst (snd ?run), fst (snd (snd ?run)), fst (snd (snd (snd ?run))),
                     snd (snd (snd (snd ?run))))"
    by simp
  have "fst ?run = - EIO \<and> fst (snd ?run) = 11 \<and> fst (snd (snd ?run)) = 12"
    using direct_read_single_transaction [OF run] s r by force
  moreover have "fst (snd (snd (snd ?run))) = device ([], [])"
      "snd (snd (snd (snd ?run))) = [MutexLock, I2cMasterSend [0], UsleepRange 10000 20000, I2cMasterRecv 5,
     UsleepRange 10000 20000, MutexUnlock, Verify, DevErr ''failed to verify sensor data'']"
    by (simp_all add: dht12_read_raw_def dht12_read_data_def script_bus_def device_def
          IIO_CHAN_INFO_RAW_def EIO_def)
  ultimately show ?thesis
    by (metis run)
qed

text \<open>
  C9. For every direct-read request: with the selector \<open>IIO_CHAN_INFO_RAW\<close> and a
  successful transaction the accessor returns \<open>IIO_VAL_INT\<close> and stores the signed value of
  the decoded humidity for the humidity channel and of the decoded temperature for the
  temperature channel; with \<open>IIO_CHAN_INFO_SCALE\<close> it returns \<open>IIO_VAL_INT\<close> and stores 100
  with no call to the bus (no event, device unchanged); with any other selector it
  returns \<open>-EINVAL\<close> and stores nothing.
\<close>

theorem direct_read_selectors:
  assumes "dht12_read_data ops data sd = (r, sd1, data1, ev1)"
  shows "(0 \<le> r \<longrightarrow>
            dht12_read_raw ops data IIO_HUMIDITYRELATIVE val val2 IIO_CHAN_INFO_RAW sd =
              (IIO_VAL_INT, sint (hum_data sd1), val2, data1, ev1) \<and>
            dht12_read_raw ops data IIO_TEMP val val2 IIO_CHAN_INFO_RAW sd =
              (IIO_VAL_INT, sint (temp_data sd1), val2, data1, ev1))
       \<and> dht12_read_raw ops data ct val val2 IIO_CHAN_INFO_SCALE sd =
              (IIO_VAL_INT, 100, val2, data, [])
       \<and> (m \<noteq> IIO_CHAN_INFO_RAW \<and> m \<noteq> IIO_CHAN_INFO_SCALE \<longrightarrow>
            dht12_read_raw ops data ct val val2 m sd = (- EINVAL, val, val2, data, []))"
  using read_raw_RAW [OF assms, of IIO_HUMIDITYRELATIVE val val2]
    read_raw_RAW [OF assms, of IIO_TEMP val val2]
    read_raw_SCALE [of ops data ct val val2 sd]
    read_raw_other [of m ops data ct val val2 sd]
  by simp

theorem direct_read_selectors_witness:
  "dht12_read_raw script_bus (device ([1], [(5, (23, 45, 26, 50, 144))])) IIO_HUMIDITYRELATIVE 11 12
     IIO_CHAN_INFO_RAW stale =
     (1, 2345, 12, device ([], []),
      [MutexLock, I2cMasterSend [0], UsleepRange 10000 20000, I2cMasterRecv 5,
       UsleepRange 10000 20000, MutexUnlock, Verify, Decode])
   \<and> dht12_read_raw script_bus (device ([1], [(5, (23, 45, 26, 50, 144))])) IIO_TEMP 11 12
     IIO_CHAN_INFO_RAW stale =
     (1, 2650, 12, device ([], []),
      [MutexLock, I2cMasterSend [0], UsleepRange 10000 20000, I2cMasterRecv 5,
       UsleepRange 10000 20000, MutexUnlock, Verify, Decode])
   \<and> dht12_read_raw script_bus (device ([1], [(5, (23, 45, 26, 50, 144))])) IIO_TEMP 11 12
     IIO_CHAN_INFO_SCALE stale =
     (1, 100, 12, device ([1], [(5, (23, 45, 26, 50, 144))]), [])
   \<and> dht12_read_raw script_bus (device ([1], [(5, (23, 45, 26, 50, 144))])) IIO_TEMP 11 12
     1 stale =
     (- 22, 11, 12, device ([1], [(5, (23, 45, 26, 50, 144))]), [])"
proof -
  have rd: "dht12_read_data script_bus (device ([1], [(5, (23, 45, 26, 50, 144))])) stale =
     (5, \<lparr>hum_data = 2345, temp_data = 2650\<rparr>, device ([], []),
      [MutexLock, I2cMasterSend [0], UsleepRange 10000 20000, I2cMasterRecv 5,
       UsleepRange 10000 20000, MutexUnlock, Verify, Decode])"
    by (simp add: dht12_read_data_def script_bus_def device_def stale_def)
  from direct_read_selectors [OF rd, of 11 12 IIO_TEMP 1] show ?thesis
    by (simp add: IIO_VAL_INT_def EINVAL_def IIO_CHAN_INFO_RAW_def IIO_CHAN_INFO_SCALE_def)
qed

text \<open>
  C10, as stated, fails: a send that fails with \<open>-ENXIO\<close> (-6) reaches the direct-read
  caller as -6, a checksum mismatch as \<open>-EIO\<close> (-5), so the two are told apart by the
  returned value.
\<close>

theorem checksum_error_code_counterexample:
  "fst (dht12_read_raw script_bus (device ([- 6], [])) IIO_TEMP 0 0 IIO_CHAN_INFO_RAW stale) \<noteq>
   fst (dht12_read_raw script_bus (device ([1], [(5, (23, 45, 26, 50, 143))])) IIO_TEMP 0 0
          IIO_CHAN_INFO_RAW stale)"
  by (simp add: dht12_read_raw_def dht12_read_data_def script_bus_def device_def
        IIO_CHAN_INFO_RAW_def EIO_def)

text \<open>
  C10, amended. A checksum mismatch reaches the direct-read caller as \<open>-EIO\<close>. A failed
  send or receive reaches the caller as the negative value the bus call returned. So
  the returned value is the same for a checksum mismatch and for a bus failure exactly
  when the bus call failed with \<open>-EIO\<close>.
\<close>

theorem checksum_error_code:
  assumes "i2c_master_send ops (client data) [0] = (s, c1)" and "0 \<le> s"
    and "i2c_master_recv ops c1 5 = ((r, (rx0, rx1, rx2, rx3, rx4)), c2)" and "0 \<le> r"
    and "unat rx4 \<noteq> (unat rx0 + unat rx1 + unat rx2 + unat rx3) mod 256"
    and "dht12_read_raw ops data ct val val2 IIO_CHAN_INFO_RAW sd = (ret, val', val2', data', ev)"
    and "i2c_master_send bops (client bdata) [0] = (bs, bc1)"
    and "i2c_master_recv bops bc1 5 = ((br, brx), bc2)"
    and "bs < 0 \<or> br < 0"
    and "dht12_read_raw bops bdata bct bval bval2 IIO_CHAN_INFO_RAW bsd =
           (bret, bval', bval2', bdata', bev)"
  shows "ret = - EIO \<and> bret = (if bs < 0 then bs else br)
       \<and> (ret = bret) = ((if bs < 0 then bs else br) = - EIO)"
proof -
  have a: "ret = - EIO"
    using read_raw_RAW [OF read_data_crc_failed [OF assms(1-5), of sd], of ct val val2] assms(6)
    by (simp add: EIO_def)
  have b: "bret = (if bs < 0 then bs else br)"
  proof (cases "bs < 0")
    case True
    from read_raw_RAW [OF read_data_send_failed [OF assms(7) True, of bsd], of bct bval bval2]
      assms(10) True
    show ?thesis by simp
  next
    case False
    then have "0 \<le> bs" "br < 0"
      using assms(9) by simp_all
    from read_raw_RAW [OF read_data_recv_failed [OF assms(7) this(1) assms(8) this(2), of bsd],
        of bct bval bval2] assms(10) False \<open>br < 0\<close>
    show ?thesis by simp
  qed
  from a b show ?thesis by auto
qed

theorem checksum_error_code_witness:
  "fst (dht12_read_raw script_bus (device ([1], [(5, (23, 45, 26, 50, 143))])) IIO_TEMP 0 0
          IIO_CHAN_INFO_RAW stale) = - EIO
   \<and> fst (dht12_read_raw script_bus (device ([- 5], [])) IIO_TEMP 0 0 IIO_CHAN_INFO_RAW stale) = - 5
   \<and> fst (dht12_read_raw script_bus (device ([1], [(- 6, (0, 0, 0, 0, 0))])) IIO_TEMP 0 0
          IIO_CHAN_INFO_RAW stale) = - 6
   \<and> - EIO = (- 5 :: int)"
proof -
  let ?a = "dht12_read_raw script_bus (device ([1], [(5, (23, 45, 26, 50, 143))])) IIO_TEMP 0 0
          IIO_CHAN_INFO_RAW stale"
  let ?b = "dht12_read_raw script_bus (device ([- 5], [])) IIO_TEMP 0 0 IIO_CHAN_INFO_RAW stale"
  let ?c = "dht12_read_raw script_bus (device ([1], [(- 6, (0, 0, 0, 0, 0))])) IIO_TEMP 0 0
          IIO_CHAN_INFO_RAW stale"
  have sa: "i2c_master_send script_bus (client (device ([1], [(5, (23, 45, 26, 50, 143))]))) [0] =
           (1, ([], [(5, (23, 45, 26, 50, 143))]))"
    by (simp add: script_bus_def device_def)
  have ra: "i2c_master_recv script_bus ([], [(5, (23, 45, 26, 50, 143))]) 5 =
           ((5, (23, 45, 26, 50, 143)), ([], []))"
    by (simp add: script_bus_def)
  have sb: "i2c_master_send script_bus (client (device ([- 5], []))) [0] = (- 5, ([], []))"
    by (simp add: script_bus_def device_def)
  have rb: "i2c_master_recv script_bus ([], []) 5 = ((- 5, (0, 0, 0, 0, 0)), ([], []))"
    by (simp add: script_bus_def)
  have sc: "i2c_master_send script_bus (client (device ([1], [(- 6, (0, 0, 0, 0, 0))]))) [0] =
            (1, ([], [(- 6, (0, 0, 0, 0, 0))]))"
    by (simp add: script_bus_def device_def)
  have rc: "i2c_master_recv script_bus ([], [(- 6, (0, 0, 0, 0, 0))]) 5 =
            ((- 6, (0, 0, 0, 0, 0)), ([], []))"
    by (simp add: script_bus_def)
  have a: "?a = (fst ?a, fst (snd ?a), fst (snd (snd ?a)), fst (snd (snd (snd ?a))),
                 snd (snd (snd (snd ?a))))"
    by simp
  have b: "?b = (fst ?b, fst (snd ?b), fst (snd (snd ?b)), fst (snd (snd (snd ?b))),
                 snd (snd (snd (snd ?b))))"
    by simp
  have c: "?c = (fst ?c, fst (snd ?c), fst (snd (snd ?c)), fst (snd (snd (snd ?c))),
                 snd (snd (snd (snd ?c))))"
    by simp
  from checksum_error_code [OF sa _ ra _ _ a sb rb _ b]
    checksum_error_code [OF sa _ ra _ _ a sc rc _ c]
  show ?thesis by (simp add: EIO_def)
qed

text \<open>
  C6. Whenever the second transaction of a trigger firing fails (its return value is
  negative: a failed send, a failed receive or a checksum mismatch, see
  \<open>read_data_fails_iff\<close>), the handler pushes nothing and stores nothing in the buffer,
  its last call is the acknowledgement of the trigger, and it returns \<open>IRQ_HANDLED\<close> as
  it does on success: the failure reaches no caller.
\<close>

theorem second_failure_abandons_capture:
  assumes "dht12_read_data ops data sd = (ret1, sd1, data1, ev1)"
    and "dht12_read_data ops data1 sd1 = (ret2, sd2, data2, ev2)"
    and "ret2 < 0"
  shows "dht12_trigger_handler ops m ml ts data sd =
           Some (IRQ_HANDLED, data2, ev1 @ ev2 @ [IioTriggerNotifyDone])
       \<and> filter is_push (ev1 @ ev2 @ [IioTriggerNotifyDone]) = []
       \<and> filter is_store (ev1 @ ev2 @ [IioTriggerNotifyDone]) = []
       \<and> buffer data2 = buffer data"
  using trigger_handler_eq [OF assms(1,2), of m ml ts] assms(3)
    read_data_no_capture_events [OF assms(1)] read_data_no_capture_events [OF assms(2)]
  by simp

theorem second_failure_abandons_capture_witness:
  "dht12_trigger_handler script_bus 3 3 1000
     (device ([1, 1], [(5, (23, 45, 26, 50, 144)), (5, (23, 45, 26, 50, 143))])) stale =
   Some (IRQ_HANDLED, device ([], []),
     [MutexLock, I2cMasterSend [0], UsleepRange 10000 20000, I2cMasterRecv 5,
      UsleepRange 10000 20000, MutexUnlock, Verify, Decode,
      MutexLock, I2cMasterSend [0], UsleepRange 10000 20000, I2cMasterRecv 5,
      UsleepRange 10000 20000, MutexUnlock, Verify, DevErr ''failed to verify sensor data'',
      IioTriggerNotifyDone])"
proof -
  have rd1: "dht12_read_data script_bus
      (device ([1, 1], [(5, (23, 45, 26, 50, 144)), (5, (23, 45, 26, 50, 143))])) stale =
      (5, \<lparr>hum_data = 2345, temp_data = 2650\<rparr>, device ([1], [(5, (23, 45, 26, 50, 143))]),
       [MutexLock, I2cMasterSend [0], UsleepRange 10000 20000, I2cMasterRecv 5,
        UsleepRange 10000 20000, MutexUnlock, Verify, Decode])"
    by (simp add: dht12_read_data_def script_bus_def device_def stale_def)
  have rd2: "dht12_read_data script_bus (device ([1], [(5, (23, 45, 26, 50, 143))]))
      \<lparr>hum_data = 2345, temp_data = 2650\<rparr> =
      (- 5, \<lparr>hum_data = 2345, temp_data = 2650\<rparr>, device ([], []),
       [MutexLock, I2cMasterSend [0], UsleepRange 10000 20000, I2cMasterRecv 5,
        UsleepRange 10000 20000, MutexUnlock, Verify, DevErr ''failed to verify sensor data''])"
    by (simp add: dht12_read_data_def script_bus_def device_def EIO_def)
  from second_failure_abandons_capture [OF rd1 rd2, of 3 3 1000] show ?thesis by simp
qed






text \<open>
  C4. For every reading and every channel mask: with the full two-channel mask the
  buffer holds the humidity in slot 0 and the temperature in slot 1. With any other mask
  (of at most two set bits below \<open>masklength\<close>, the capacity of the buffer) the set bits
  are visited in ascending order and the value for each (humidity for bit 0, temperature
  for any other bit) is stored in the next slot, starting at slot 0; the slots beyond
  keep their contents, and the number of slots written is the number of set bits.
\<close>

theorem channel_projection:
  "fill_buffer sd DHT12_ALL_CHANNEL_MASK ml buf =
     Some (2, (hum_data sd, temp_data sd),
           [BufferStore 0 (hum_data sd), BufferStore 1 (temp_data sd)])
   \<and> (m \<noteq> DHT12_ALL_CHANNEL_MASK \<and> length (for_each_set_bit m ml) \<le> 2 \<longrightarrow>
        (\<exists>buf' st.
           fill_buffer sd m ml buf = Some (length (for_each_set_bit m ml), buf', st) \<and>
           take (length (for_each_set_bit m ml)) (slots buf') =
             map (\<lambda>b. if b = 0 then hum_data sd else temp_data sd) (for_each_set_bit m ml) \<and>
           drop (length (for_each_set_bit m ml)) (slots buf') =
             drop (length (for_each_set_bit m ml)) (slots buf) \<and>
           st = map (\<lambda>(i, b). BufferStore i (if b = 0 then hum_data sd else temp_data sd))
                  (enumerate 0 (for_each_set_bit m ml))))
   \<and> sorted_wrt (<) (for_each_set_bit m ml)
   \<and> set (for_each_set_bit m ml) = {k. k < ml \<and> bit m k}
   \<and> length (for_each_set_bit m ml) = card {k. k < ml \<and> bit m k}"
proof -
  have full: "fill_buffer sd DHT12_ALL_CHANNEL_MASK ml buf =
     Some (2, (hum_data sd, temp_data sd),
           [BufferStore 0 (hum_data sd), BufferStore 1 (temp_data sd)])"
    by (simp add: fill_buffer_def)
  have flip: "(\<lambda>b. if b \<noteq> 0 then temp_data sd else hum_data sd) =
              (\<lambda>b::nat. if b = 0 then hum_data sd else temp_data sd)"
    by auto
  have flip2: "(\<lambda>(i, b). BufferStore i (if b \<noteq> 0 then temp_data sd else hum_data sd)) =
               (\<lambda>(i, b::nat). BufferStore i (if b = 0 then hum_data sd else temp_data sd))"
    by auto
  have part: "\<exists>buf' st.
           fill_buffer sd m ml buf = Some (length (for_each_set_bit m ml), buf', st) \<and>
           take (length (for_each_set_bit m ml)) (slots buf') =
             map (\<lambda>b. if b = 0 then hum_data sd else temp_data sd) (for_each_set_bit m ml) \<and>
           drop (length (for_each_set_bit m ml)) (slots buf') =
             drop (length (for_each_set_bit m ml)) (slots buf) \<and>
           st = map (\<lambda>(i, b). BufferStore i (if b = 0 then hum_data sd else temp_data sd))
                  (enumerate 0 (for_each_set_bit m ml))"
    if "m \<noteq> DHT12_ALL_CHANNEL_MASK" "length (for_each_set_bit m ml) \<le> 2"
    using scan_loop_at_most_two [OF that(2), of sd buf] that(1)
    unfolding flip flip2 by (simp add: fill_buffer_def)
  from full part for_each_set_bit_ascending [of m ml] show ?thesis
    by blast
qed

theorem channel_projection_witness:
  "fill_buffer \<lparr>hum_data = 2345, temp_data = 2650\<rparr> 3 3 (0, 0) =
     Some (2, (2345, 2650), [BufferStore 0 2345, BufferStore 1 2650])
   \<and> fill_buffer \<lparr>hum_data = 2345, temp_data = 2650\<rparr> 2 3 (0, 0) =
     Some (1, (2650, 0), [BufferStore 0 2650])
   \<and> fill_buffer \<lparr>hum_data = 2345, temp_data = 2650\<rparr> 1 3 (7, 9) =
     Some (1, (2345, 9), [BufferStore 0 2345])"
proof -
  let ?sd = "\<lparr>hum_data = 2345, temp_data = 2650\<rparr>"
  have ne: "(2 :: 64 word) \<noteq> DHT12_ALL_CHANNEL_MASK" "(1 :: 64 word) \<noteq> DHT12_ALL_CHANNEL_MASK"
    by (simp_all add: DHT12_ALL_CHANNEL_MASK_eq)
  have full: "fill_buffer ?sd 3 3 (0, 0) =
      Some (2, (2345, 2650), [BufferStore 0 2345, BufferStore 1 2650])"
    using channel_projection [THEN conjunct1, of ?sd 3 "(0, 0)"]
    by (simp add: DHT12_ALL_CHANNEL_MASK_eq)
  have "\<exists>buf' st. fill_buffer ?sd 2 3 (0, 0) = Some (1, buf', st) \<and>
          take 1 (slots buf') = [2650] \<and> drop 1 (slots buf') = [0] \<and> st = [BufferStore 0 2650]"
    using channel_projection [THEN conjunct2, THEN conjunct1, of 2 3 ?sd "(0, 0)"] ne(1)
    by (simp add: bits_examples)
  then obtain b2 where "fill_buffer ?sd 2 3 (0, 0) = Some (1, b2, [BufferStore 0 2650])"
    and "take 1 (slots b2) = [2650]" and "drop 1 (slots b2) = [0]"
    by blast
  then have temp: "fill_buffer ?sd 2 3 (0, 0) = Some (1, (2650, 0), [BufferStore 0 2650])"
    by (cases b2) simp
  have "\<exists>buf' st. fill_buffer ?sd 1 3 (7, 9) = Some (1, buf', st) \<and>
          take 1 (slots buf') = [2345] \<and> drop 1 (slots buf') = [9] \<and> st = [BufferStore 0 2345]"
    using channel_projection [THEN conjunct2, THEN conjunct1, of 1 3 ?sd "(7, 9)"] ne(2)
    by (simp add: bits_examples)
  then obtain b1 where "fill_buffer ?sd 1 3 (7, 9) = Some (1, b1, [BufferStore 0 2345])"
    and "take 1 (slots b1) = [2345]" and "drop 1 (slots b1) = [9]"
    by blast
  then have hum: "fill_buffer ?sd 1 3 (7, 9) = Some (1, (2345, 9), [BufferStore 0 2345])"
    by (cases b1) simp
  from full temp hum show ?thesis by simp
qed

end
